theory Spec2Isabelle
  imports Main "HOL-Library.Word" "HOL-Library.AList"
begin

section \<open>Python values used by chatbot.py\<close>

subsection \<open>Strings\<close>

text \<open>
  A Python \<open>str\<close> is a sequence of Unicode code points, so a string is a list of
  code points here; \<open>u\<close> reads an ASCII literal. The three methods that
  \<open>question_to_sql\<close> calls are \<open>str.strip\<close>, \<open>str.startswith\<close> and
  \<open>str.splitlines\<close>, and it joins with \<open>"\n".join\<close>.
\<close>

type_synonym pystr = "nat list"

definition u :: "string \<Rightarrow> pystr" where
  "u s = map of_char s"

text \<open>
  \<open>str.isspace\<close> on one code point: U+0009..U+000D, U+001C..U+0020, U+0085, U+00A0,
  U+1680, U+2000..U+200A, U+2028, U+2029, U+202F, U+205F and U+3000.
\<close>

definition isspace :: "nat \<Rightarrow> bool" where
  "isspace c =
     ((9 \<le> c \<and> c \<le> 13) \<or> (28 \<le> c \<and> c \<le> 32) \<or> c = 133 \<or> c = 160 \<or> c = 5760
      \<or> (8192 \<le> c \<and> c \<le> 8202) \<or> c = 8232 \<or> c = 8233 \<or> c = 8239 \<or> c = 8287
      \<or> c = 12288)"

text \<open>
  The line boundaries of \<open>str.splitlines\<close>: LF, VT, FF, CR, FS, GS, RS, NEL, LS and PS;
  CR LF counts as one boundary.
\<close>

definition is_linebreak :: "nat \<Rightarrow> bool" where
  "is_linebreak c =
     (c = 10 \<or> c = 11 \<or> c = 12 \<or> c = 13 \<or> c = 28 \<or> c = 29 \<or> c = 30 \<or> c = 133
      \<or> c = 8232 \<or> c = 8233)"

definition lstrip :: "pystr \<Rightarrow> pystr" where
  "lstrip s = dropWhile isspace s"

definition rstrip :: "pystr \<Rightarrow> pystr" where
  "rstrip s = rev (dropWhile isspace (rev s))"

definition strip :: "pystr \<Rightarrow> pystr" where
  "strip s = rstrip (lstrip s)"

definition startswith :: "pystr \<Rightarrow> pystr \<Rightarrow> bool" where
  "startswith s p = (take (length p) s = p)"

text \<open>
  \<open>splitlines_from cur s\<close> continues a split in which \<open>cur\<close> is the part of the
  current line already read. A line that is still open at the end of the text is
  reported only when it is not empty, so a trailing line boundary yields no empty
  last line and the empty string has no lines.
\<close>

fun splitlines_from :: "pystr \<Rightarrow> pystr \<Rightarrow> pystr list" where
  "splitlines_from cur [] = (if cur = [] then [] else [cur])"
| "splitlines_from cur [c] =
     (if is_linebreak c then [cur] else [cur @ [c]])"
| "splitlines_from cur (c # d # s) =
     (if c = 13 \<and> d = 10 then cur # splitlines_from [] s
      else if is_linebreak c then cur # splitlines_from [] (d # s)
      else splitlines_from (cur @ [c]) (d # s))"

definition splitlines :: "pystr \<Rightarrow> pystr list" where
  "splitlines s = splitlines_from [] s"

fun join :: "pystr \<Rightarrow> pystr list \<Rightarrow> pystr" where
  "join sep [] = []"
| "join sep [x] = x"
| "join sep (x # y # ys) = x @ sep @ join sep (y # ys)"

subsection \<open>Exceptions and results\<close>

text \<open>
  An exception is its class name and the text \<open>str(e)\<close>. Every exception of the
  model is an instance of \<open>Exception\<close>, which is what \<open>except Exception\<close> catches;
  \<open>KeyboardInterrupt\<close> and \<open>SystemExit\<close>, which are not, arrive asynchronously and
  are outside the model. A call either returns a value or raises.
\<close>

datatype exn = Exn (cls: string) (msg: pystr)

datatype 'a pyres = Returned 'a | Raised exn

section \<open>Prompt to SQL\<close>

text \<open>The fixed schema description and instructions of the prompt (lines 27 to 58).\<close>

definition schema_lines :: "string list" where
  "schema_lines =
     [''You are a helpful assistant that generates SQL queries for an SQLite database.'',
      '''',
      ''Here is the database schema:'',
      '''',
      ''Table: AdSales'',
      ''- date'',
      ''- item_id'',
      ''- ad_sales'',
      ''- impressions'',
      ''- ad_spend'',
      ''- clicks'',
      ''- units_sold'',
      '''',
      ''Table: TotalSales'',
      ''- date'',
      ''- item_id'',
      ''- total_sales'',
      ''- total_units_ordered'',
      '''',
      ''Table: Eligibility'',
      ''- eligibility_datetime_utc'',
      ''- item_id'',
      ''- eligibility'',
      ''- message'',
      '''']"

definition instruction_lines :: "string list" where
  "instruction_lines =
     [''Write a syntactically correct SQL query using only the columns above.'',
      ''Only return the raw SQL query.'',
      ''Do NOT use triple backticks or markdown formatting.'']"

definition full_prompt :: "pystr \<Rightarrow> pystr" where
  "full_prompt prompt =
     [10] @ join [10] (map u schema_lines) @ [10]
     @ u ''Question: '' @ [34] @ prompt @ [34] @ [10, 10]
     @ join [10] (map u instruction_lines) @ [10]"

text \<open>The fence marker: three backticks (U+0060).\<close>

definition fence :: pystr where
  "fence = [96, 96, 96]"

text \<open>
  \<open>question_to_sql\<close> (lines 26 to 63). The remote model is the parameter
  \<open>generate_content\<close>: for a prompt it either returns the text of the response
  (\<open>model.generate_content(full_prompt)\<close> followed by \<open>response.text\<close>) or
  raises. There is no \<open>try\<close> around the call, so an exception leaves the function.
\<close>

definition question_to_sql :: "(pystr \<Rightarrow> pystr pyres) \<Rightarrow> pystr \<Rightarrow> pystr pyres" where
  "question_to_sql generate_content prompt =
     (case generate_content (full_prompt prompt) of
        Raised e \<Rightarrow> Raised e
      | Returned text \<Rightarrow>
          (let sql = strip text;
               sql = (if startswith sql fence
                      then join [10]
                             (filter (\<lambda>line. \<not> startswith (strip line) fence) (splitlines sql))
                      else sql)
           in Returned (strip sql)))"

section \<open>Execute SQL\<close>

subsection \<open>The store\<close>

text \<open>
  The values sqlite3 hands back: \<open>None\<close> for NULL, \<open>int\<close>, \<open>float\<close> (the 64 bits
  of the double), \<open>str\<close> and \<open>bytes\<close>.
\<close>

datatype cell = NoneV | IntV int | FloatV "64 word" | TextV pystr | BytesV "nat list"

text \<open>
  An entry of \<open>cursor.description\<close> is a 7-tuple whose first item is the column name;
  \<open>desc[0]\<close> is its first component here. \<open>description\<close> is \<open>None\<close> for a
  statement that returns no rows (INSERT, UPDATE, DELETE, CREATE ...).
\<close>

type_synonym column_desc = "pystr \<times> cell list"

record cursor =
  fetchall :: "cell list list"
  description :: "column_desc list option"

text \<open>
  The connection is a parameter: \<open>conn query db\<close> is what \<open>conn.cursor()\<close>,
  \<open>cursor.execute(query)\<close> and \<open>cursor.fetchall()\<close> do on the store \<open>db\<close>: the
  store afterwards, and either the exception sqlite3 raised or the cursor with the rows
  fetched and its description.
\<close>

type_synonym 'db connection = "pystr \<Rightarrow> 'db \<Rightarrow> cursor pyres \<times> 'db"

subsection \<open>Data frames\<close>

text \<open>
  A frame is its columns in order; a column has a label, a dtype and its cells, as
  pandas holds them: in a column of dtype \<open>float64\<close> every cell is a double, NaN where
  the row had NULL. The columns of one frame have the same number of cells. Labels need
  not be distinct (\<open>SELECT a, a FROM t\<close>).
\<close>

datatype dtype = Int64 | Float64 | Object

record series =
  sname :: pystr
  sdtype :: dtype
  scells :: "cell list"

datatype dataframe = DataFrame (columns_of: "series list")

text \<open>
  \<open>pd.DataFrame(rows, columns=columns)\<close> is a parameter: for the rows fetched and the
  column names it returns the frame pandas builds, with the dtype it infers for each
  column and the cells coerced to it, or raises.
\<close>

type_synonym frame_ctor = "cell list list \<Rightarrow> pystr list \<Rightarrow> dataframe pyres"

text \<open>\<open>df.empty\<close>: an axis of length zero.\<close>

definition df_empty :: "dataframe \<Rightarrow> bool" where
  "df_empty df = (case columns_of df of [] \<Rightarrow> True | s # _ \<Rightarrow> scells s = [])"

definition nrows :: "dataframe \<Rightarrow> nat" where
  "nrows df = (case columns_of df of [] \<Rightarrow> 0 | s # _ \<Rightarrow> length (scells s))"

text \<open>The cell of a column at a row index; a column has one cell for every row.\<close>

definition cell_at :: "cell list \<Rightarrow> nat \<Rightarrow> cell" where
  "cell_at col i = (if i < length col then col ! i else NoneV)"

text \<open>
  \<open>df[label]\<close>: the column with that label, or the sub-frame of all columns that carry
  it when the label is not unique; \<open>KeyError\<close> when none does.
\<close>

datatype selection = Series series | SubFrame "series list"

definition getitem :: "dataframe \<Rightarrow> pystr \<Rightarrow> selection pyres" where
  "getitem df label =
     (case filter (\<lambda>s. sname s = label) (columns_of df) of
        [] \<Rightarrow> Raised (Exn ''KeyError'' ([39] @ label @ [39]))
      | [s] \<Rightarrow> Returned (Series s)
      | ss \<Rightarrow> Returned (SubFrame ss))"

fun sel_columns :: "selection \<Rightarrow> series list" where
  "sel_columns (Series s) = [s]"
| "sel_columns (SubFrame ss) = ss"

text \<open>\<open>pd.api.types.is_numeric_dtype\<close> on the dtype of a column.\<close>

definition is_numeric_dtype :: "dtype \<Rightarrow> bool" where
  "is_numeric_dtype t = (t = Int64 \<or> t = Float64)"

subsection \<open>execute_sql\<close>

text \<open>What \<open>execute_sql\<close> returns: a frame or a text.\<close>

datatype result = Frame dataframe | Str pystr

text \<open>
  The \<open>try\<close> block of \<open>execute_sql\<close> (lines 68 to 72). Iterating over a description
  that is \<open>None\<close> raises \<open>TypeError\<close>, after the statement has run.
\<close>

definition none_not_iterable :: exn where
  "none_not_iterable =
     Exn ''TypeError'' ([39] @ u ''NoneType'' @ [39] @ u '' object is not iterable'')"

definition execute_sql_try ::
  "frame_ctor \<Rightarrow> 'db connection \<Rightarrow> pystr \<Rightarrow> 'db \<Rightarrow> dataframe pyres \<times> 'db"
where
  "execute_sql_try pd_DataFrame conn query db =
     (case conn query db of
        (Raised e, db') \<Rightarrow> (Raised e, db')
      | (Returned cur, db') \<Rightarrow>
          (let rows = fetchall cur in
           case description cur of
             None \<Rightarrow> (Raised none_not_iterable, db')
           | Some descs \<Rightarrow> (pd_DataFrame rows (map fst descs), db')))"

text \<open>
  \<open>execute_sql\<close> (lines 66 to 74) returns a frame, or the text
  \<open>f"Error: {e}"\<close> for the exception caught. Nothing is rolled back in the handler:
  the store is the one the statement left.
\<close>

definition execute_sql ::
  "frame_ctor \<Rightarrow> 'db connection \<Rightarrow> pystr \<Rightarrow> 'db \<Rightarrow> result pyres \<times> 'db"
where
  "execute_sql pd_DataFrame conn query db =
     (case execute_sql_try pd_DataFrame conn query db of
        (Returned df, db') \<Rightarrow> (Returned (Frame df), db')
      | (Raised e, db') \<Rightarrow> (Returned (Str (u ''Error: '' @ msg e)), db'))"

section \<open>GUI plot\<close>

text \<open>
  What matplotlib is asked to draw: the lines of an axes with their data and style,
  its title, labels, tick rotation and grid. The plot frame holds the canvases packed
  into it.
\<close>

record line2d =
  xdata :: "cell list"
  ydata :: "cell list"
  color :: string
  marker :: string
  linewidth :: "nat option"

record axes =
  ax_lines :: "line2d list"
  ax_title :: pystr
  ax_xlabel :: pystr
  ax_ylabel :: pystr
  xtick_rotation :: "nat option"
  ax_grid :: bool

record figure =
  figsize :: "nat \<times> nat"
  dpi :: nat
  fig_axes :: "axes list"

datatype widget = FigureCanvasTkAgg figure

text \<open>
  The objects a call of \<open>plot_if_possible(df)\<close> can reach: its argument, which is
  whatever \<open>execute_sql\<close> returned, and the children of the global \<open>plot_frame\<close>.
  The function is a map from these objects before the call to the objects after it.
\<close>

record objects =
  df_arg :: result
  plot_frame :: "widget list"

definition clear_plot_frame :: "objects \<Rightarrow> objects" where
  "clear_plot_frame w = w\<lparr>plot_frame := []\<rparr>"

text \<open>\<open>fig.add_subplot(111)\<close>: an axes with nothing drawn on it.\<close>

definition add_subplot :: axes where
  "add_subplot =
     \<lparr>ax_lines = [], ax_title = [], ax_xlabel = [], ax_ylabel = [],
      xtick_rotation = None, ax_grid = False\<rparr>"

text \<open>
  The two library calls of line 90 are parameters, since both can raise there:
  \<open>astype_str\<close> is \<open>Series.astype(str)\<close>, which returns the cells of the column cast
  to text or raises (a \<open>bytes\<close> cell that is not UTF-8); \<open>ax_plot\<close> is
  \<open>ax.plot(x, y, ...)\<close> on the columns of \<open>x\<close> and on \<open>y\<close>, which draws or raises.
\<close>

type_synonym series_cast = "series \<Rightarrow> cell list pyres"

type_synonym line_plot = "cell list list \<Rightarrow> cell list \<Rightarrow> exn option"

fun astype_all :: "series_cast \<Rightarrow> series list \<Rightarrow> cell list list pyres" where
  "astype_all astype_str [] = Returned []"
| "astype_all astype_str (c # cs) =
     (case astype_str c of
        Raised e \<Rightarrow> Raised e
      | Returned xs \<Rightarrow>
          (case astype_all astype_str cs of
             Raised e \<Rightarrow> Raised e
           | Returned xss \<Rightarrow> Returned (xs # xss)))"

text \<open>
  Lines 87 to 100 of \<open>plot_if_possible\<close>, on a frame that is not empty.
  \<open>is_numeric_dtype(df[y_col])\<close> is false when \<open>df[y_col]\<close> is a sub-frame, which
  has no dtype. \<open>ax.plot(x, y)\<close> draws one line for each column of \<open>x\<close>; when it
  raises, the title and the labels are not set. Line 99 plots one number at one label.
\<close>

definition plot_axes :: "series_cast \<Rightarrow> line_plot \<Rightarrow> dataframe \<Rightarrow> axes \<Rightarrow> axes pyres" where
  "plot_axes astype_str ax_plot df ax =
     (case columns_of df of
        [xs, ys] \<Rightarrow>
          (let x_col = sname xs; y_col = sname ys in
           case getitem df y_col of
             Raised e \<Rightarrow> Raised e
           | Returned (SubFrame _) \<Rightarrow> Returned ax
           | Returned (Series y) \<Rightarrow>
               if is_numeric_dtype (sdtype y) then
                 (case getitem df x_col of
                    Raised e \<Rightarrow> Raised e
                  | Returned x \<Rightarrow>
                      (case astype_all astype_str (sel_columns x) of
                         Raised e \<Rightarrow> Raised e
                       | Returned xss \<Rightarrow>
                           (case ax_plot xss (scells y) of
                              Some e \<Rightarrow> Raised e
                            | None \<Rightarrow>
                                Returned
                                  (ax\<lparr>ax_lines := ax_lines ax @
                                         map (\<lambda>xs. \<lparr>xdata = xs, ydata = scells y,
                                                    color = ''blue'', marker = ''o'',
                                                    linewidth = Some 2\<rparr>) xss,
                                      ax_title := y_col @ u '' by '' @ x_col,
                                      ax_xlabel := x_col,
                                      ax_ylabel := y_col,
                                      xtick_rotation := Some 45,
                                      ax_grid := True\<rparr>))))
               else Returned ax)
      | [s] \<Rightarrow>
          if is_numeric_dtype (sdtype s) then
            (case scells s of
               [] \<Rightarrow>
                 Raised (Exn ''IndexError''
                           (u ''index 0 is out of bounds for axis 0 with size 0''))
             | v # _ \<Rightarrow>
                 (let label = sname s in
                  Returned
                    (ax\<lparr>ax_lines := ax_lines ax @
                           [\<lparr>xdata = [TextV label], ydata = [v], color = ''red'',
                             marker = ''o'', linewidth = None\<rparr>],
                        ax_title := label\<rparr>)))
          else Returned ax
      | _ \<Rightarrow> Returned ax)"

text \<open>
  \<open>plot_if_possible\<close> (lines 81 to 104). For a frame that is not empty the figure is
  created, drawn and packed whether or not anything was plotted on its axes. There is
  no \<open>try\<close>: an exception of line 90 leaves the function, after the plot frame has
  been cleared.
\<close>

definition plot_if_possible :: "series_cast \<Rightarrow> line_plot \<Rightarrow> objects \<Rightarrow> objects pyres" where
  "plot_if_possible astype_str ax_plot w0 =
     (let w = clear_plot_frame w0 in
      case df_arg w of
        Str _ \<Rightarrow> Returned w
      | Frame df \<Rightarrow>
          if df_empty df then Returned w
          else
            (case plot_axes astype_str ax_plot df add_subplot of
               Raised e \<Rightarrow> Raised e
             | Returned ax \<Rightarrow>
                 Returned
                   (w\<lparr>plot_frame := plot_frame w @
                        [FigureCanvasTkAgg
                           \<lparr>figsize = (6, 4), dpi = 100, fig_axes = [ax]\<rparr>]\<rparr>)))"

section \<open>FastAPI\<close>

text \<open>
  \<open>DataFrame.to_dict(orient="records")\<close>: for each row the dict of
  \<open>zip(columns, row)\<close>; a dict keeps one entry per key, at the place of the first and
  with the value of the last.
\<close>

definition py_dict :: "(pystr \<times> cell) list \<Rightarrow> (pystr \<times> cell) list" where
  "py_dict items = fold (\<lambda>(k, v). AList.update k v) items []"

definition to_dict_records :: "dataframe \<Rightarrow> (pystr \<times> cell) list list" where
  "to_dict_records df =
     map (\<lambda>i. py_dict (map (\<lambda>s. (sname s, cell_at (scells s) i)) (columns_of df)))
         [0..<nrows df]"

datatype jvalue = JStr pystr | JRecords "(pystr \<times> cell) list list"

text \<open>
  \<open>api_ask\<close> (lines 180 to 195): the dict the handler returns, keys in order. An
  exception of \<open>question_to_sql\<close> leaves the handler.
\<close>

definition api_ask ::
  "(pystr \<Rightarrow> pystr pyres) \<Rightarrow> frame_ctor \<Rightarrow> 'db connection \<Rightarrow> pystr \<Rightarrow> 'db
     \<Rightarrow> (string \<times> jvalue) list pyres \<times> 'db"
where
  "api_ask generate_content pd_DataFrame conn question db =
     (case question_to_sql generate_content question of
        Raised e \<Rightarrow> (Raised e, db)
      | Returned sql \<Rightarrow>
          (case execute_sql pd_DataFrame conn sql db of
             (Raised e, db') \<Rightarrow> (Raised e, db')
           | (Returned (Frame df), db') \<Rightarrow>
               (Returned
                  [(''question'', JStr question), (''sql'', JStr sql),
                   (''result'', JRecords (to_dict_records df))], db')
           | (Returned (Str err), db') \<Rightarrow>
               (Returned
                  [(''question'', JStr question), (''sql'', JStr sql),
                   (''error'', JStr err)], db')))"

text \<open>
  The route \<open>@app.post("/ask")\<close> sets no status code. FastAPI encodes the dict the
  handler returns as JSON and answers 200 with it; when the encoding raises (a NaN
  among the values, \<open>bytes\<close> that are not UTF-8), or when the handler raises, it
  answers 500. The encoding is the parameter \<open>render\<close>: the exception it raises on a
  dict, if any.
\<close>

type_synonym json_render = "(string \<times> jvalue) list \<Rightarrow> exn option"

record response =
  status_code :: nat
  body :: "(string \<times> jvalue) list"

definition post_ask ::
  "json_render \<Rightarrow> (pystr \<Rightarrow> pystr pyres) \<Rightarrow> frame_ctor \<Rightarrow> 'db connection \<Rightarrow> pystr \<Rightarrow> 'db
     \<Rightarrow> response \<times> 'db"
where
  "post_ask render generate_content pd_DataFrame conn question db =
     (case api_ask generate_content pd_DataFrame conn question db of
        (Returned content, db') \<Rightarrow>
          (case render content of
             None \<Rightarrow> (\<lparr>status_code = 200, body = content\<rparr>, db')
           | Some e \<Rightarrow> (\<lparr>status_code = 500, body = []\<rparr>, db'))
      | (Raised e, db') \<Rightarrow> (\<lparr>status_code = 500, body = []\<rparr>, db'))"

section \<open>The specification's wording of the post-processing\<close>

text \<open>
  Section 4.2 of the specification describes the post-processing of the response as:
  trim; if the response is wrapped in fence markers, strip every line that is purely a
  fence marker, leaving content that shares a line with a marker, and trim again.
  \<open>synthesize_spec\<close> follows these words, to be compared with \<open>question_to_sql\<close>.
\<close>

definition endswith :: "pystr \<Rightarrow> pystr \<Rightarrow> bool" where
  "endswith s p = startswith (rev s) (rev p)"

definition synthesize_spec :: "pystr \<Rightarrow> pystr" where
  "synthesize_spec text =
     (let t = strip text in
      if startswith t fence \<and> endswith t fence
      then strip (join [10] (filter (\<lambda>line. strip line \<noteq> fence) (splitlines t)))
      else t)"

section \<open>Example collaborators\<close>

text \<open>
  A store that is the rows of one table, and a connection that knows two queries, a
  statement that returns no rows, and otherwise reports a syntax error.
\<close>

definition demo_conn :: "(cell list list) connection" where
  "demo_conn query db =
     (if query = u ''SELECT date, ad_sales FROM AdSales''
      then (Returned \<lparr>fetchall = db,
                      description = Some [(u ''date'', []), (u ''ad_sales'', [])]\<rparr>, db)
      else if query = u ''SELECT ad_sales FROM AdSales''
      then (Returned \<lparr>fetchall = map (\<lambda>row. drop 1 row) db,
                      description = Some [(u ''ad_sales'', [])]\<rparr>, db)
      else if query = u ''DELETE FROM AdSales''
      then (Returned \<lparr>fetchall = [], description = None\<rparr>, [])
      else (Raised (Exn ''OperationalError''
                      (u ''near '' @ [34] @ u ''SELEKT'' @ [34] @ u '': syntax error'')), db))"

definition demo_db :: "cell list list" where
  "demo_db = [[TextV (u ''2025-06-01''), IntV 5], [TextV (u ''2025-06-02''), IntV 8]]"

text \<open>The same table with NULL for the sales of the second day.\<close>

definition demo_db_null :: "cell list list" where
  "demo_db_null = [[TextV (u ''2025-06-01''), IntV 1], [TextV (u ''2025-06-02''), NoneV]]"

definition demo_date :: series where
  "demo_date =
     \<lparr>sname = u ''date'', sdtype = Object,
      scells = [TextV (u ''2025-06-01''), TextV (u ''2025-06-02'')]\<rparr>"

definition demo_ad_sales :: series where
  "demo_ad_sales = \<lparr>sname = u ''ad_sales'', sdtype = Int64, scells = [IntV 5, IntV 8]\<rparr>"


text \<open>
  The column pandas makes of the int 1 and NULL: dtype \<open>float64\<close>, the doubles 1.0
  and NaN.
\<close>

definition demo_ad_sales_null :: series where
  "demo_ad_sales_null =
     \<lparr>sname = u ''ad_sales'', sdtype = Float64,
      scells = [FloatV 0x3FF0000000000000, FloatV 0x7FF8000000000000]\<rparr>"

text \<open>
  A frame constructor that knows the rows of the examples: the two columns of
  \<open>demo_db\<close>, of text and of ints, are kept as they are, and the column of 1 and NULL
  is coerced to floats.
\<close>

definition demo_DataFrame :: frame_ctor where
  "demo_DataFrame rows columns =
     (if rows = demo_db \<and> columns = [u ''date'', u ''ad_sales'']
      then Returned (DataFrame [demo_date, demo_ad_sales])
      else if rows = [[IntV 1], [NoneV]] \<and> columns = [u ''ad_sales'']
      then Returned (DataFrame [demo_ad_sales_null])
      else Raised (Exn ''ValueError'' (u ''rows that are not of the examples'')))"

text \<open>
  A cast to text that is right on a column of text, which it returns as it is, and
  on a column that holds the byte FF, which is not UTF-8.
\<close>

definition demo_astype_str :: series_cast where
  "demo_astype_str s =
     (if list_ex (\<lambda>c. c = BytesV [255]) (scells s)
      then Raised (Exn ''UnicodeDecodeError''
                     (u ''utf-8 codec cannot decode byte 0xff in position 0''))
      else Returned (scells s))"

text \<open>A plot call that draws what it is given.\<close>

definition demo_ax_plot :: line_plot where
  "demo_ax_plot xss ys = None"

text \<open>
  A JSON encoding that is right on the dicts of the examples: it raises on the NaN, as
  \<open>json.dumps\<close> with \<open>allow_nan=False\<close> does, and accepts text and ints.
\<close>

definition demo_render :: json_render where
  "demo_render content =
     (if list_ex (\<lambda>(k, v). case v of
                      JStr _ \<Rightarrow> False
                    | JRecords rs \<Rightarrow>
                        list_ex (list_ex (\<lambda>(c, x). x = FloatV 0x7FF8000000000000)) rs)
           content
      then Some (Exn ''ValueError'' (u ''Out of range float values are not JSON compliant''))
      else None)"

section \<open>Properties of the string operations\<close>

lemma last_dropWhile:
  "xs \<noteq> [] \<Longrightarrow> \<not> P (last xs) \<Longrightarrow> dropWhile P xs \<noteq> [] \<and> last (dropWhile P xs) = last xs"
  by (induction xs) auto

lemma hd_rstrip:
  "s \<noteq> [] \<Longrightarrow> \<not> isspace (hd s) \<Longrightarrow> rstrip s \<noteq> [] \<and> hd (rstrip s) = hd s"
  using last_dropWhile [of "rev s" isspace]
  by (simp add: rstrip_def hd_rev last_rev)

lemma lstrip_fix: "s = [] \<or> \<not> isspace (hd s) \<Longrightarrow> lstrip s = s"
  by (cases s) (auto simp: lstrip_def)

lemma lstrip_head: "lstrip s = [] \<or> \<not> isspace (hd (lstrip s))"
  unfolding lstrip_def by (metis hd_dropWhile)

lemma rstrip_Nil: "rstrip [] = []"
  by (simp add: rstrip_def)

text \<open>A stripped string has no leading whitespace left, and stripping it again
  changes nothing.\<close>

lemma lstrip_strip: "lstrip (strip s) = strip s"
proof (cases "lstrip s = []")
  case True
  then have "strip s = []" by (simp only: strip_def rstrip_Nil)
  then show ?thesis by (simp add: lstrip_def)
next
  case False
  with lstrip_head [of s] have "\<not> isspace (hd (lstrip s))" by simp
  with False hd_rstrip [of "lstrip s"] show ?thesis
    by (simp add: strip_def lstrip_fix)
qed

lemma rstrip_rstrip: "rstrip (rstrip s) = rstrip s"
  by (simp add: rstrip_def)

lemma strip_strip: "strip (strip s) = strip s"
proof -
  have "strip (strip s) = rstrip (lstrip (strip s))" by (simp add: strip_def)
  also have "\<dots> = rstrip (strip s)" by (simp add: lstrip_strip)
  also have "\<dots> = strip s" by (simp add: strip_def rstrip_rstrip)
  finally show ?thesis .
qed

lemma startswith_iff: "startswith s p = (\<exists>t. s = p @ t)"
  unfolding startswith_def by (metis append_eq_conv_conj append_take_drop_id)

lemma rstrip_prefix: "\<exists>w. s = rstrip s @ w"
proof -
  have "rev s = takeWhile isspace (rev s) @ dropWhile isspace (rev s)" by simp
  then have "s = rev (dropWhile isspace (rev s)) @ rev (takeWhile isspace (rev s))"
    by (metis rev_append rev_rev_ident)
  then show ?thesis unfolding rstrip_def by blast
qed

lemma rstrip_append_keep:
  assumes "p \<noteq> []" and "\<not> isspace (last p)"
  shows "\<exists>t'. rstrip (p @ t) = p @ t'"
proof (cases "\<forall>x\<in>set (rev t). isspace x")
  case True
  then have "dropWhile isspace (rev t @ rev p) = dropWhile isspace (rev p)"
    by (intro dropWhile_append2) auto
  also have "\<dots> = rev p" using assms by (cases "rev p") (auto simp: last_rev)
  finally show ?thesis by (simp add: rstrip_def)
next
  case False
  then have "dropWhile isspace (rev t @ rev p) = dropWhile isspace (rev t) @ rev p"
    by (auto simp: dropWhile_append)
  then show ?thesis by (simp add: rstrip_def)
qed

text \<open>Whether a string starts with a prefix that does not end in whitespace is not
  changed by stripping the string on the right.\<close>

lemma startswith_rstrip:
  assumes "p \<noteq> []" and "\<not> isspace (last p)"
  shows "startswith (rstrip s) p = startswith s p"
proof
  assume "startswith (rstrip s) p"
  then obtain t where "rstrip s = p @ t" by (auto simp: startswith_iff)
  moreover obtain w where "s = rstrip s @ w" using rstrip_prefix by blast
  ultimately have "s = p @ (t @ w)" by simp
  then show "startswith s p" unfolding startswith_iff by blast
next
  assume "startswith s p"
  then obtain t where "s = p @ t" by (auto simp: startswith_iff)
  with rstrip_append_keep [OF assms, of t] show "startswith (rstrip s) p"
    by (auto simp: startswith_iff)
qed

lemma startswith_strip_fence: "startswith (strip l) fence = startswith (lstrip l) fence"
  unfolding strip_def by (rule startswith_rstrip) (simp_all add: fence_def isspace_def)

section \<open>Properties of question_to_sql\<close>

lemma startswith_self: "startswith fence fence"
  by (simp add: startswith_def)

text \<open>
  Claim C10. The fence lines are stripped only when the trimmed response begins with
  the marker. Then every line whose form without leading whitespace starts with the
  marker is removed, whatever follows the marker on that line, the remaining lines are
  joined with a newline and the result is trimmed. A trimmed response that does not
  begin with the marker is returned as it is, markers elsewhere in it included.
\<close>

theorem question_to_sql_fence_rule:
  assumes "generate_content (full_prompt prompt) = Returned text"
  shows "question_to_sql generate_content prompt =
           Returned
             (if startswith (strip text) fence
              then strip (join [10]
                     (filter (\<lambda>line. \<not> startswith (lstrip line) fence)
                        (splitlines (strip text))))
              else strip text)"
  using assms
  by (simp add: question_to_sql_def Let_def startswith_strip_fence strip_strip)

text \<open>
  Two responses: one with a marker on its last line only, which comes back trimmed
  with the marker in place; one that begins with a marker and has a line on which
  \<open>SELECT 2\<close> follows a marker, which is removed with the marker.
\<close>

theorem question_to_sql_fence_rule_witness:
  "question_to_sql (\<lambda>p. Returned (u '' SELECT 1'' @ [10] @ fence @ [10])) (u ''q'')
     = Returned (u ''SELECT 1'' @ [10] @ fence)
   \<and> question_to_sql
       (\<lambda>p. Returned (fence @ u ''sql'' @ [10] @ u ''SELECT 1'' @ [10]
                        @ u ''  '' @ fence @ u '' SELECT 2'' @ [10] @ fence))
       (u ''q'')
     = Returned (u ''SELECT 1'')"
  using question_to_sql_fence_rule
          [of "\<lambda>p. Returned (u '' SELECT 1'' @ [10] @ fence @ [10])" "u ''q''"
              "u '' SELECT 1'' @ [10] @ fence @ [10]"]
        question_to_sql_fence_rule
          [of "\<lambda>p. Returned (fence @ u ''sql'' @ [10] @ u ''SELECT 1'' @ [10]
                        @ u ''  '' @ fence @ u '' SELECT 2'' @ [10] @ fence)" "u ''q''"
              "fence @ u ''sql'' @ [10] @ u ''SELECT 1'' @ [10]
                        @ u ''  '' @ fence @ u '' SELECT 2'' @ [10] @ fence"]
  by (simp add: u_def fence_def strip_def lstrip_def rstrip_def isspace_def startswith_def
        splitlines_def is_linebreak_def)

text \<open>
  Claim C3 says that content which shares a line with a marker is left intact. On the
  one-line response that puts \<open>SELECT 1\<close> between two markers the function returns
  the empty text, where the specification's wording keeps the line.
\<close>

theorem question_to_sql_drops_content_on_marker_line:
  "question_to_sql (\<lambda>p. Returned (fence @ u ''SELECT 1'' @ fence)) (u ''q'') = Returned []
   \<and> synthesize_spec (fence @ u ''SELECT 1'' @ fence) = fence @ u ''SELECT 1'' @ fence"
  by (simp add: question_to_sql_def synthesize_spec_def endswith_def u_def fence_def strip_def
        lstrip_def rstrip_def isspace_def startswith_def splitlines_def is_linebreak_def)

text \<open>
  Claim C3, amended. The query text returned is trimmed. When the trimmed response
  begins with the marker, it is the trimmed join of the lines kept, and a line is kept
  exactly when its trimmed form does not start with the marker: every line that is
  purely a marker is removed, and so is a line on which content follows the marker.
  Otherwise it is the trimmed response.
\<close>

theorem question_to_sql_trims_and_strips:
  assumes "generate_content (full_prompt prompt) = Returned text"
  shows "\<exists>sql kept.
           question_to_sql generate_content prompt = Returned sql
           \<and> strip sql = sql
           \<and> kept = filter (\<lambda>line. \<not> startswith (strip line) fence) (splitlines (strip text))
           \<and> list_all (\<lambda>line. strip line \<noteq> fence) kept
           \<and> sql = (if startswith (strip text) fence then strip (join [10] kept)
                     else strip text)"
proof -
  let ?kept = "filter (\<lambda>line. \<not> startswith (strip line) fence) (splitlines (strip text))"
  let ?sql = "if startswith (strip text) fence then strip (join [10] ?kept) else strip text"
  have "question_to_sql generate_content prompt = Returned ?sql"
    using assms by (simp add: question_to_sql_def Let_def strip_strip)
  moreover have "strip ?sql = ?sql" by (simp add: strip_strip)
  moreover have "list_all (\<lambda>line. strip line \<noteq> fence) ?kept"
    using startswith_self by (auto simp: list_all_iff)
  ultimately show ?thesis by blast
qed

text \<open>The response of three lines, marker, \<open>SELECT 1\<close>, marker, yields \<open>SELECT 1\<close>.\<close>

theorem question_to_sql_trims_and_strips_witness:
  "question_to_sql (\<lambda>p. Returned (fence @ [10] @ u ''SELECT 1'' @ [10] @ fence)) (u ''q'')
     = Returned (u ''SELECT 1'')"
  using question_to_sql_trims_and_strips
          [of "\<lambda>p. Returned (fence @ [10] @ u ''SELECT 1'' @ [10] @ fence)" "u ''q''"
              "fence @ [10] @ u ''SELECT 1'' @ [10] @ fence"]
  by (simp add: u_def fence_def strip_def lstrip_def rstrip_def isspace_def startswith_def
        splitlines_def is_linebreak_def)

text \<open>
  Claim C8. When the generation call raises, \<open>question_to_sql\<close> raises the same
  exception to its caller, and it raises in no other case: it never turns a failed call
  into a returned text.
\<close>

theorem question_to_sql_raises_iff:
  "(question_to_sql generate_content prompt = Raised e)
     = (generate_content (full_prompt prompt) = Raised e)"
  by (simp add: question_to_sql_def Let_def split: pyres.splits)

theorem question_to_sql_raises_iff_witness:
  "question_to_sql (\<lambda>p. Raised (Exn ''ServiceUnavailable'' (u ''503 unreachable'')))
       (u ''total ad spend'')
     = Raised (Exn ''ServiceUnavailable'' (u ''503 unreachable''))
   \<and> question_to_sql (\<lambda>p. Raised (Exn ''ServiceUnavailable'' (u ''503 unreachable'')))
       (u ''total ad spend'')
     \<noteq> Returned []"
  using question_to_sql_raises_iff
          [of "\<lambda>p. Raised (Exn ''ServiceUnavailable'' (u ''503 unreachable''))"
              "u ''total ad spend''" "Exn ''ServiceUnavailable'' (u ''503 unreachable'')"]
  by simp

section \<open>Properties of execute_sql\<close>

lemma execute_sql_returns: "\<exists>r. fst (execute_sql pd_DataFrame conn query db) = Returned r"
  by (auto simp: execute_sql_def execute_sql_try_def Let_def
      split: prod.splits pyres.splits option.splits)

text \<open>
  Claim C1 says that the error returned always carries the engine's message. For a
  statement that the engine runs without a fault and that has no description, the text
  returned is Python's \<open>TypeError\<close> message; the engine raised nothing.
\<close>

theorem execute_sql_error_not_from_engine:
  "execute_sql demo_DataFrame demo_conn (u ''DELETE FROM AdSales'') demo_db
     = (Returned (Str (u ''Error: '' @ [39] @ u ''NoneType'' @ [39]
                         @ u '' object is not iterable'')), [])
   \<and> fst (demo_conn (u ''DELETE FROM AdSales'') demo_db)
     = Returned \<lparr>fetchall = [], description = None\<rparr>"
  by (simp add: execute_sql_def execute_sql_try_def demo_conn_def none_not_iterable_def u_def)

text \<open>
  Claim C1, amended. \<open>execute_sql\<close> never raises: it returns a value, and leaves the
  store as the statement left it. When the engine raises, the value is the text
  \<open>Error: \<close> followed by the engine's message. When the engine returns rows with a
  description, the value is the frame that \<open>pd.DataFrame\<close> builds from the rows
  fetched and the names of the description, in order; when \<open>pd.DataFrame\<close> raises, it
  is the text \<open>Error: \<close> followed by the message of that exception.
\<close>

theorem execute_sql_never_raises:
  "(\<exists>r. fst (execute_sql pd_DataFrame conn query db) = Returned r)
   \<and> snd (execute_sql pd_DataFrame conn query db) = snd (conn query db)
   \<and> (\<forall>e. fst (conn query db) = Raised e \<longrightarrow>
          fst (execute_sql pd_DataFrame conn query db)
            = Returned (Str (u ''Error: '' @ msg e)))
   \<and> (\<forall>cur descs. fst (conn query db) = Returned cur \<and> description cur = Some descs \<longrightarrow>
          fst (execute_sql pd_DataFrame conn query db)
            = (case pd_DataFrame (fetchall cur) (map fst descs) of
                 Returned df \<Rightarrow> Returned (Frame df)
               | Raised e \<Rightarrow> Returned (Str (u ''Error: '' @ msg e))))"
proof (intro conjI allI impI)
  show "\<exists>r. fst (execute_sql pd_DataFrame conn query db) = Returned r"
    by (rule execute_sql_returns)
next
  show "snd (execute_sql pd_DataFrame conn query db) = snd (conn query db)"
    by (auto simp: execute_sql_def execute_sql_try_def Let_def
        split: prod.splits pyres.splits option.splits)
next
  fix e assume "fst (conn query db) = Raised e"
  then show "fst (execute_sql pd_DataFrame conn query db)
               = Returned (Str (u ''Error: '' @ msg e))"
    by (auto simp: execute_sql_def execute_sql_try_def split: prod.splits)
next
  fix cur descs
  assume "fst (conn query db) = Returned cur \<and> description cur = Some descs"
  then show "fst (execute_sql pd_DataFrame conn query db)
            = (case pd_DataFrame (fetchall cur) (map fst descs) of
                 Returned df \<Rightarrow> Returned (Frame df)
               | Raised e \<Rightarrow> Returned (Str (u ''Error: '' @ msg e)))"
    by (auto simp: execute_sql_def execute_sql_try_def Let_def
        split: prod.splits pyres.splits)
qed

text \<open>
  The misspelt statement of the specification's example returns the engine's message;
  the query returns the frame of the two columns \<open>date\<close> and \<open>ad_sales\<close>.
\<close>

theorem execute_sql_never_raises_witness:
  "fst (execute_sql demo_DataFrame demo_conn (u ''SELEKT * FROM AdSales'') demo_db)
     = Returned (Str (u ''Error: near '' @ [34] @ u ''SELEKT'' @ [34] @ u '': syntax error''))
   \<and> fst (execute_sql demo_DataFrame demo_conn (u ''SELECT date, ad_sales FROM AdSales'')
           demo_db)
     = Returned (Frame (DataFrame [demo_date, demo_ad_sales]))"
proof -
  have a: "fst (demo_conn (u ''SELEKT * FROM AdSales'') demo_db)
        = Raised (Exn ''OperationalError''
                      (u ''near '' @ [34] @ u ''SELEKT'' @ [34] @ u '': syntax error''))"
    by (simp add: demo_conn_def u_def)
  have b: "fst (demo_conn (u ''SELECT date, ad_sales FROM AdSales'') demo_db)
        = Returned \<lparr>fetchall = demo_db,
                      description = Some [(u ''date'', []), (u ''ad_sales'', [])]\<rparr>"
    by (simp add: demo_conn_def)
  have c: "demo_DataFrame demo_db [u ''date'', u ''ad_sales'']
        = Returned (DataFrame [demo_date, demo_ad_sales])"
    by (simp add: demo_DataFrame_def)
  from a b c show ?thesis
    using execute_sql_never_raises
            [where pd_DataFrame = demo_DataFrame and conn = demo_conn
               and query = "u ''SELEKT * FROM AdSales''" and db = demo_db]
          execute_sql_never_raises
            [where pd_DataFrame = demo_DataFrame and conn = demo_conn
               and query = "u ''SELECT date, ad_sales FROM AdSales''" and db = demo_db]
    by (simp add: u_def)
qed

text \<open>
  Claim C9. When the engine runs a statement without a fault and the cursor has no
  description, \<open>execute_sql\<close> returns the error text of the \<open>TypeError\<close> raised on
  building the column list, not a frame; the store it leaves is the one the statement
  produced, so the error does not mean that the store is unchanged.
\<close>

theorem execute_sql_no_description:
  assumes "conn query db = (Returned cur, db')" and "description cur = None"
  shows "execute_sql pd_DataFrame conn query db
           = (Returned (Str (u ''Error: '' @ [39] @ u ''NoneType'' @ [39]
                               @ u '' object is not iterable'')), db')"
  using assms by (simp add: execute_sql_def execute_sql_try_def none_not_iterable_def)

text \<open>The statement that empties the table returns an error, and the table is empty.\<close>

theorem execute_sql_no_description_witness:
  "execute_sql demo_DataFrame demo_conn (u ''DELETE FROM AdSales'') demo_db
     = (Returned (Str (u ''Error: '' @ [39] @ u ''NoneType'' @ [39]
                               @ u '' object is not iterable'')), [])
   \<and> demo_db \<noteq> []"
  using execute_sql_no_description
          [where conn = demo_conn and query = "u ''DELETE FROM AdSales''" and db = demo_db
             and cur = "\<lparr>fetchall = [], description = None\<rparr>" and db' = "[]"
             and pd_DataFrame = demo_DataFrame]
  by (simp add: demo_conn_def u_def demo_db_def)

section \<open>Properties of plot_if_possible\<close>

lemma getitem_second:
  "sname x \<noteq> sname y \<Longrightarrow> getitem (DataFrame [x, y]) (sname y) = Returned (Series y)"
  by (simp add: getitem_def)

lemma getitem_first:
  "sname x \<noteq> sname y \<Longrightarrow> getitem (DataFrame [x, y]) (sname x) = Returned (Series x)"
  by (auto simp: getitem_def)

text \<open>With one label on both columns, \<open>df[y_col]\<close> is the frame of both.\<close>

lemma getitem_duplicate:
  "sname x = sname y \<Longrightarrow> getitem (DataFrame [x, y]) (sname y) = Returned (SubFrame [x, y])"
  by (simp add: getitem_def)

text \<open>Line 90 on two columns with different labels, the second numeric.\<close>

lemma plot_axes_two:
  assumes "columns_of df = [x, y]" and "sname x \<noteq> sname y" and "is_numeric_dtype (sdtype y)"
  shows "plot_axes astype_str ax_plot df add_subplot =
           (case astype_str x of
              Raised e \<Rightarrow> Raised e
            | Returned xs \<Rightarrow>
                (case ax_plot [xs] (scells y) of
                   Some e \<Rightarrow> Raised e
                 | None \<Rightarrow>
                     Returned
                       \<lparr>ax_lines = [\<lparr>xdata = xs, ydata = scells y,
                                     color = ''blue'', marker = ''o'', linewidth = Some 2\<rparr>],
                        ax_title = sname y @ u '' by '' @ sname x,
                        ax_xlabel = sname x, ax_ylabel = sname y,
                        xtick_rotation = Some 45, ax_grid = True\<rparr>))"
proof -
  from assms(1) have df: "df = DataFrame [x, y]" by (cases df) simp
  show ?thesis
    using assms(2,3)
    by (simp add: plot_axes_def df getitem_second getitem_first Let_def add_subplot_def
        split: pyres.splits option.splits)
qed



text \<open>
  Two columns that carry one label: nothing is plotted, whatever the dtype of the
  second, since \<open>df[y_col]\<close> is then a frame.
\<close>

lemma plot_axes_duplicate_label:
  assumes "columns_of df = [x, y]" and "sname x = sname y"
  shows "plot_axes astype_str ax_plot df ax = Returned ax"
proof -
  from assms(1) have df: "df = DataFrame [x, y]" by (cases df) simp
  show ?thesis using assms(2) by (simp add: plot_axes_def df getitem_def Let_def)
qed



text \<open>
  When the cast of the first column raises, or the plot call does, the exception
  leaves \<open>plot_if_possible\<close>: nothing catches it.
\<close>

lemma plot_line_90_raises:
  assumes "df_arg w = Frame df" and "\<not> df_empty df" and "columns_of df = [x, y]"
    and "sname x \<noteq> sname y" and "is_numeric_dtype (sdtype y)"
    and "astype_str x = Raised e
         \<or> (\<exists>xs. astype_str x = Returned xs \<and> ax_plot [xs] (scells y) = Some e)"
  shows "plot_if_possible astype_str ax_plot w = Raised e"
  using assms plot_axes_two [of df x y astype_str ax_plot]
  by (auto simp: plot_if_possible_def clear_plot_frame_def Let_def)

text \<open>A first column that holds bytes which are not UTF-8: the cast raises.\<close>

lemma plot_blob_column_raises:
  "plot_if_possible demo_astype_str demo_ax_plot
     \<lparr>df_arg = Frame (DataFrame [\<lparr>sname = u ''message'', sdtype = Object,
                                  scells = [BytesV [255]]\<rparr>,
                                 \<lparr>sname = u ''clicks'', sdtype = Int64, scells = [IntV 3]\<rparr>]),
      plot_frame = []\<rparr>
   = Raised (Exn ''UnicodeDecodeError''
               (u ''utf-8 codec cannot decode byte 0xff in position 0''))"
  by (simp add: plot_if_possible_def clear_plot_frame_def plot_axes_def df_empty_def
        is_numeric_dtype_def getitem_def demo_astype_str_def Let_def u_def)







text \<open>
  The plot frame is cleared first, so the outcome of a call does not depend on what the
  frame held before, and a second call on the objects the first one left returns the
  same objects.
\<close>

lemma plot_ignores_earlier_frame:
  "plot_if_possible astype_str ax_plot (w\<lparr>plot_frame := before\<rparr>)
     = plot_if_possible astype_str ax_plot (w\<lparr>plot_frame := []\<rparr>)"
  by (simp add: plot_if_possible_def clear_plot_frame_def Let_def)

lemma plot_twice:
  "plot_if_possible astype_str ax_plot w = Returned w' \<Longrightarrow>
     plot_if_possible astype_str ax_plot w' = Returned w'"
  by (auto simp: plot_if_possible_def clear_plot_frame_def Let_def
      split: result.splits if_splits pyres.splits)

section \<open>Properties of the HTTP surface\<close>

lemma update_fresh: "k \<notin> fst ` set al \<Longrightarrow> AList.update k v al = al @ [(k, v)]"
  by (induction al) auto

lemma fold_update_distinct:
  "distinct (map fst (al @ items)) \<Longrightarrow>
     fold (\<lambda>(k, v). AList.update k v) items al = al @ items"
proof (induction items arbitrary: al)
  case Nil
  then show ?case by simp
next
  case (Cons p items)
  obtain k v where p: "p = (k, v)" by (cases p)
  from Cons.prems p have fresh: "k \<notin> fst ` set al" by auto
  from Cons.prems p have "distinct (map fst ((al @ [(k, v)]) @ items))" by auto
  from Cons.IH [OF this] fresh p show ?case by (simp add: update_fresh)
qed

lemma py_dict_distinct: "distinct (map fst items) \<Longrightarrow> py_dict items = items"
  using fold_update_distinct [of "[]" items] by (simp add: py_dict_def)

text \<open>
  The records of a frame: one per row, in row order; with distinct labels, record
  \<open>i\<close> pairs each label with the cell of row \<open>i\<close>, in column order.
\<close>

lemma length_to_dict_records: "length (to_dict_records df) = nrows df"
  by (simp add: to_dict_records_def)

lemma to_dict_records_rows:
  assumes "distinct (map sname (columns_of df))"
  shows "to_dict_records df =
           map (\<lambda>i. map (\<lambda>s. (sname s, cell_at (scells s) i)) (columns_of df)) [0..<nrows df]"
proof -
  have "py_dict (map (\<lambda>s. (sname s, cell_at (scells s) i)) (columns_of df))
          = map (\<lambda>s. (sname s, cell_at (scells s) i)) (columns_of df)" for i
    using assms by (intro py_dict_distinct) (simp add: comp_def)
  then show ?thesis by (simp add: to_dict_records_def)
qed

text \<open>
  Claim C4 says that the endpoint never answers with a distinct error status once the
  statement has been executed. The query of a column with a NULL succeeds and yields a
  frame with a NaN; the dict the handler returns cannot be encoded as JSON, and the
  answer is 500.
\<close>

theorem post_ask_nan_answers_500:
  "post_ask demo_render (\<lambda>p. Returned (u ''SELECT ad_sales FROM AdSales'')) demo_DataFrame
       demo_conn (u ''ad sales'') demo_db_null
     = (\<lparr>status_code = 500, body = []\<rparr>, demo_db_null)
   \<and> execute_sql demo_DataFrame demo_conn (u ''SELECT ad_sales FROM AdSales'') demo_db_null
     = (Returned (Frame (DataFrame [demo_ad_sales_null])), demo_db_null)"
proof -
  have q: "question_to_sql (\<lambda>p. Returned (u ''SELECT ad_sales FROM AdSales''))
              (u ''ad sales'') = Returned (u ''SELECT ad_sales FROM AdSales'')"
    by (simp add: question_to_sql_def u_def fence_def strip_def lstrip_def rstrip_def
          isspace_def startswith_def)
  have e: "execute_sql demo_DataFrame demo_conn (u ''SELECT ad_sales FROM AdSales'')
             demo_db_null
      = (Returned (Frame (DataFrame [demo_ad_sales_null])), demo_db_null)"
    by (simp add: execute_sql_def execute_sql_try_def demo_conn_def demo_db_null_def
          demo_DataFrame_def demo_db_def u_def)
  have d: "to_dict_records (DataFrame [demo_ad_sales_null])
      = [[(u ''ad_sales'', FloatV 0x3FF0000000000000)],
         [(u ''ad_sales'', FloatV 0x7FF8000000000000)]]"
    by (simp add: to_dict_records_def nrows_def py_dict_def cell_at_def
          demo_ad_sales_null_def upt_rec)
  show ?thesis
    by (simp add: post_ask_def api_ask_def q e d demo_render_def)
qed

text \<open>
  Claim C4, amended. When \<open>question_to_sql\<close> has returned the statement, the handler
  returns a dict with exactly the keys \<open>question\<close>, \<open>sql\<close> and \<open>result\<close>, the result
  holding one record per row of the frame, in row order, each pairing the column labels
  (when they are distinct) with the cells of its row, when \<open>execute_sql\<close> returned a
  frame; and a dict with exactly the keys \<open>question\<close>, \<open>sql\<close> and \<open>error\<close>, the
  error being the text returned, when it returned a text. Whenever the dict can be
  encoded, the endpoint answers with it and with status 200, in both cases.
\<close>

theorem post_ask_shapes:
  assumes "question_to_sql generate_content question = Returned sql"
  shows "(\<exists>df db'. execute_sql pd_DataFrame conn sql db = (Returned (Frame df), db')
            \<and> api_ask generate_content pd_DataFrame conn question db
                = (Returned [(''question'', JStr question), (''sql'', JStr sql),
                             (''result'', JRecords (to_dict_records df))], db')
            \<and> (render [(''question'', JStr question), (''sql'', JStr sql),
                        (''result'', JRecords (to_dict_records df))] = None \<longrightarrow>
                 post_ask render generate_content pd_DataFrame conn question db
                   = (\<lparr>status_code = 200,
                       body = [(''question'', JStr question), (''sql'', JStr sql),
                               (''result'', JRecords (to_dict_records df))]\<rparr>, db'))
            \<and> length (to_dict_records df) = nrows df
            \<and> (distinct (map sname (columns_of df)) \<longrightarrow>
                 to_dict_records df =
                   map (\<lambda>i. map (\<lambda>s. (sname s, cell_at (scells s) i)) (columns_of df))
                       [0..<nrows df]))
         \<or> (\<exists>err db'. execute_sql pd_DataFrame conn sql db = (Returned (Str err), db')
            \<and> api_ask generate_content pd_DataFrame conn question db
                = (Returned [(''question'', JStr question), (''sql'', JStr sql),
                             (''error'', JStr err)], db')
            \<and> (render [(''question'', JStr question), (''sql'', JStr sql),
                        (''error'', JStr err)] = None \<longrightarrow>
                 post_ask render generate_content pd_DataFrame conn question db
                   = (\<lparr>status_code = 200,
                       body = [(''question'', JStr question), (''sql'', JStr sql),
                               (''error'', JStr err)]\<rparr>, db')))"
proof -
  obtain r db' where ex: "execute_sql pd_DataFrame conn sql db = (r, db')"
    by (cases "execute_sql pd_DataFrame conn sql db")
  with execute_sql_returns [of pd_DataFrame conn sql db] obtain v where r: "r = Returned v"
    by auto
  show ?thesis
  proof (cases v)
    case (Frame df)
    with ex r assms show ?thesis
      by (simp add: post_ask_def api_ask_def length_to_dict_records to_dict_records_rows)
  next
    case (Str err)
    with ex r assms show ?thesis by (simp add: post_ask_def api_ask_def)
  qed
qed

text \<open>
  A question answered by a valid statement and one answered by a misspelt statement:
  both responses have status 200.
\<close>

theorem post_ask_shapes_witness:
  "post_ask demo_render (\<lambda>p. Returned (u ''SELECT date, ad_sales FROM AdSales''))
       demo_DataFrame demo_conn (u ''ad sales by date'') demo_db
     = (\<lparr>status_code = 200,
         body = [(''question'', JStr (u ''ad sales by date'')),
                 (''sql'', JStr (u ''SELECT date, ad_sales FROM AdSales'')),
                 (''result'',
                  JRecords [[(u ''date'', TextV (u ''2025-06-01'')), (u ''ad_sales'', IntV 5)],
                            [(u ''date'', TextV (u ''2025-06-02'')), (u ''ad_sales'', IntV 8)]])]\<rparr>,
        demo_db)
   \<and> post_ask demo_render (\<lambda>p. Returned (u ''SELEKT * FROM AdSales'')) demo_DataFrame
       demo_conn (u ''ad sales by date'') demo_db
     = (\<lparr>status_code = 200,
         body = [(''question'', JStr (u ''ad sales by date'')),
                 (''sql'', JStr (u ''SELEKT * FROM AdSales'')),
                 (''error'',
                  JStr (u ''Error: near '' @ [34] @ u ''SELEKT'' @ [34] @ u '': syntax error''))]\<rparr>,
        demo_db)"
proof -
  have q1: "question_to_sql (\<lambda>p. Returned (u ''SELECT date, ad_sales FROM AdSales''))
              (u ''ad sales by date'') = Returned (u ''SELECT date, ad_sales FROM AdSales'')"
    by (simp add: question_to_sql_def u_def fence_def strip_def lstrip_def rstrip_def
          isspace_def startswith_def)
  have q2: "question_to_sql (\<lambda>p. Returned (u ''SELEKT * FROM AdSales''))
              (u ''ad sales by date'') = Returned (u ''SELEKT * FROM AdSales'')"
    by (simp add: question_to_sql_def u_def fence_def strip_def lstrip_def rstrip_def
          isspace_def startswith_def)
  have e1: "execute_sql demo_DataFrame demo_conn (u ''SELECT date, ad_sales FROM AdSales'')
              demo_db
      = (Returned (Frame (DataFrame [demo_date, demo_ad_sales])), demo_db)"
    by (simp add: execute_sql_def execute_sql_try_def demo_conn_def demo_DataFrame_def)
  have e2: "execute_sql demo_DataFrame demo_conn (u ''SELEKT * FROM AdSales'') demo_db
      = (Returned (Str (u ''Error: near '' @ [34] @ u ''SELEKT'' @ [34] @ u '': syntax error'')),
         demo_db)"
    by (simp add: execute_sql_def execute_sql_try_def demo_conn_def u_def)
  have d: "to_dict_records (DataFrame [demo_date, demo_ad_sales])
      = [[(u ''date'', TextV (u ''2025-06-01'')), (u ''ad_sales'', IntV 5)],
         [(u ''date'', TextV (u ''2025-06-02'')), (u ''ad_sales'', IntV 8)]]"
    by (simp add: to_dict_records_def nrows_def py_dict_def cell_at_def demo_date_def
          demo_ad_sales_def u_def upt_rec)
  have r: "demo_render
             [(''question'', JStr (u ''ad sales by date'')),
              (''sql'', JStr (u ''SELECT date, ad_sales FROM AdSales'')),
              (''result'',
               JRecords [[(u ''date'', TextV (u ''2025-06-01'')), (u ''ad_sales'', IntV 5)],
                         [(u ''date'', TextV (u ''2025-06-02'')), (u ''ad_sales'', IntV 8)]])]
           = None"
    "demo_render
       [(''question'', JStr (u ''ad sales by date'')),
        (''sql'', JStr (u ''SELEKT * FROM AdSales'')),
        (''error'',
         JStr (u ''Error: near '' @ [34] @ u ''SELEKT'' @ [34] @ u '': syntax error''))]
     = None"
    by (simp_all add: demo_render_def)
  show ?thesis
    using r post_ask_shapes [OF q1, of demo_DataFrame demo_conn demo_db demo_render]
      post_ask_shapes [OF q2, of demo_DataFrame demo_conn demo_db demo_render]
    by (simp add: e1 e2 d)
qed


end
